theory Spec2Isabelle
  imports Main
begin

section \<open>Python values and string primitives\<close>

text \<open>
  The two modules embedded here are \<^verbatim>\<open>src/platforms/_youtube.py\<close> (the YouTube backend)
  and \<^verbatim>\<open>src/modules/funcs.py\<close> (the command handlers of the playback controller).
  A Python \<^verbatim>\<open>str\<close> is modelled as a \<^typ>\<open>string\<close>: the sequence of its code points,
  each below 256. An exception is a value of \<open>py_error\<close>; a function that may raise
  returns \<open>py_error + 'a\<close>, with \<open>Inl\<close> for the exception.
\<close>

datatype py_error =
    ValueError
  | IndexError
  | KeyError
  | TypeError
  | AttributeError
  | Raised string

text \<open>Sequencing: the first exception ends the computation.\<close>

fun and_then :: "py_error + 'a \<Rightarrow> ('a \<Rightarrow> py_error + 'b) \<Rightarrow> py_error + 'b" where
  "and_then (Inl e) f = Inl e"
| "and_then (Inr x) f = f x"

text \<open>Payloads of the external libraries are dynamically typed (\<^verbatim>\<open>dict[str, Any]\<close>).\<close>

datatype py_val =
    PNone
  | PStr string
  | PInt int
  | PList "py_val list"
  | PDict "(string \<times> py_val) list"

text \<open>Truthiness, as \<^verbatim>\<open>if x\<close> and \<^verbatim>\<open>not x\<close> test it.\<close>

fun truthy :: "py_val \<Rightarrow> bool" where
  "truthy PNone = False"
| "truthy (PStr s) = (s \<noteq> [])"
| "truthy (PInt i) = (i \<noteq> 0)"
| "truthy (PList xs) = (xs \<noteq> [])"
| "truthy (PDict kvs) = (kvs \<noteq> [])"

text \<open>\<^verbatim>\<open>d.get(k, default)\<close>; only a dict has the method.\<close>

fun py_get :: "py_val \<Rightarrow> string \<Rightarrow> py_val \<Rightarrow> py_error + py_val" where
  "py_get (PDict kvs) k dflt = Inr (case map_of kvs k of None \<Rightarrow> dflt | Some v \<Rightarrow> v)"
| "py_get _ k dflt = Inl AttributeError"

text \<open>
  \<^verbatim>\<open>s.split(sep)\<close> for a non-empty separator: the occurrences of \<open>sep\<close> are found from
  the left and do not overlap; the result always has at least one part.
\<close>

function py_split :: "string \<Rightarrow> string \<Rightarrow> string list" where
  "py_split sep [] = [[]]"
| "py_split sep (c # cs) =
     (if sep \<noteq> [] \<and> take (length sep) (c # cs) = sep
      then [] # py_split sep (drop (length sep) (c # cs))
      else (case py_split sep cs of
              [] \<Rightarrow> [[c]]
            | p # ps \<Rightarrow> (c # p) # ps))"
  by pat_completeness auto
termination
  by (relation "measure (\<lambda>(sep, s). length s)") auto

text \<open>
  \<^verbatim>\<open>int(s)\<close> on a string: the whitespace that \<^verbatim>\<open>int\<close> skips at both ends is removed,
  one sign is allowed, the rest is decimal digits, with single underscores allowed
  between digits; anything else raises \<^verbatim>\<open>ValueError\<close>. That whitespace is the tab, the
  line and page controls 9 to 13, the space, and the two spaces above 127 (133 and
  160); the separators 28 to 31, which \<^verbatim>\<open>str.strip\<close> removes, are not skipped by
  \<^verbatim>\<open>int\<close>. The bound that recent interpreters put on the number of digits is not
  modelled.
\<close>

definition is_digit :: "char \<Rightarrow> bool" where
  "is_digit c = (48 \<le> (of_char c :: nat) \<and> (of_char c :: nat) \<le> 57)"

definition is_space :: "char \<Rightarrow> bool" where
  "is_space c =
     (let n = (of_char c :: nat)
      in (9 \<le> n \<and> n \<le> 13) \<or> n = 32 \<or> n = 133 \<or> n = 160)"

definition py_strip :: "string \<Rightarrow> string" where
  "py_strip s = rev (dropWhile is_space (rev (dropWhile is_space s)))"

definition digit_val :: "char \<Rightarrow> int" where
  "digit_val c = int (of_char c) - 48"

definition digits_value :: "string \<Rightarrow> int" where
  "digits_value ds = foldl (\<lambda>a c. 10 * a + digit_val c) 0 ds"

fun digit_groups :: "string \<Rightarrow> bool" where
  "digit_groups [] = False"
| "digit_groups [c] = is_digit c"
| "digit_groups (c # d # cs) =
     (if is_digit c then
        (if d = CHR ''_'' then digit_groups cs else digit_groups (d # cs))
      else False)"

definition parse_digits :: "string \<Rightarrow> py_error + int" where
  "parse_digits s =
     (if digit_groups s then Inr (digits_value (filter (\<lambda>c. c \<noteq> CHR ''_'') s))
      else Inl ValueError)"

definition py_int :: "string \<Rightarrow> py_error + int" where
  "py_int s =
     (case py_strip s of
        [] \<Rightarrow> Inl ValueError
      | c # cs \<Rightarrow>
          if c = CHR ''-'' then
            (case parse_digits cs of Inl e \<Rightarrow> Inl e | Inr n \<Rightarrow> Inr (- n))
          else if c = CHR ''+'' then parse_digits cs
          else parse_digits (c # cs))"

text \<open>
  Binary floating point is not embedded: a float is kept as the expression that makes
  it, \<^verbatim>\<open>float(s)\<close> for a text \<open>s\<close> and \<^verbatim>\<open>round(x, 2)\<close> for a float \<open>x\<close>.
\<close>

datatype py_float = FloatOf string | Round2 py_float

text \<open>\<^verbatim>\<open>xs[i]\<close> on a list, for an index from the front.\<close>

definition py_index :: "'a list \<Rightarrow> nat \<Rightarrow> py_error + 'a" where
  "py_index xs i = (if i < length xs then Inr (xs ! i) else Inl IndexError)"

text \<open>\<^verbatim>\<open>x[-1]\<close> on a payload value.\<close>

fun py_last :: "py_val \<Rightarrow> py_error + py_val" where
  "py_last (PList xs) = (if xs = [] then Inl IndexError else Inr (last xs))"
| "py_last (PStr s) = (if s = [] then Inl IndexError else Inr (PStr [last s]))"
| "py_last (PDict kvs) = Inl KeyError"
| "py_last PNone = Inl TypeError"
| "py_last (PInt i) = Inl TypeError"

text \<open>The elements a \<^verbatim>\<open>for\<close> loop or a comprehension draws from a payload value.\<close>

fun py_iter :: "py_val \<Rightarrow> py_error + py_val list" where
  "py_iter (PList xs) = Inr xs"
| "py_iter (PStr s) = Inr (map (\<lambda>c. PStr [c]) s)"
| "py_iter (PDict kvs) = Inr (map (\<lambda>kv. PStr (fst kv)) kvs)"
| "py_iter PNone = Inl TypeError"
| "py_iter (PInt i) = Inl TypeError"

text \<open>A list comprehension \<^verbatim>\<open>[f(x) for x in xs]\<close>: the first exception ends it.\<close>

fun map_m :: "('a \<Rightarrow> py_error + 'b) \<Rightarrow> 'a list \<Rightarrow> py_error + 'b list" where
  "map_m f [] = Inr []"
| "map_m f (x # xs) =
     and_then (f x) (\<lambda>y. and_then (map_m f xs) (\<lambda>ys. Inr (y # ys)))"

section \<open>The YouTube backend\<close>

subsection \<open>The URL patterns\<close>

text \<open>
  Both patterns are used through \<^verbatim>\<open>match\<close>, so they are anchored at the start of the
  string and need not reach its end. \<^verbatim>\<open>re.IGNORECASE\<close> is modelled by lowering the
  letters of the subject before the pattern, whose literals are in lower case, is run;
  the class \<^verbatim>\<open>[\w-]\<close> holds a letter in both cases. A pattern is run on the list of
  remainders still possible: a literal keeps the remainders that start with it and
  removes it from them, an optional group keeps both choices.
\<close>

definition lower_char :: "char \<Rightarrow> char" where
  "lower_char c =
     (let n = (of_char c :: nat)
      in if 65 \<le> n \<and> n \<le> 90 then char_of (n + 32) else c)"

definition is_word_char :: "char \<Rightarrow> bool" where
  "is_word_char c =
     (let n = (of_char c :: nat)
      in (48 \<le> n \<and> n \<le> 57) \<or> (65 \<le> n \<and> n \<le> 90) \<or> n = 95 \<or> (97 \<le> n \<and> n \<le> 122)
         \<or> n = 170 \<or> n = 178 \<or> n = 179 \<or> n = 181 \<or> n = 185 \<or> n = 186
         \<or> (188 \<le> n \<and> n \<le> 190) \<or> (192 \<le> n \<and> n \<le> 214)
         \<or> (216 \<le> n \<and> n \<le> 246) \<or> 248 \<le> n)"

definition lit :: "string \<Rightarrow> string list \<Rightarrow> string list" where
  "lit p rs = map (drop (length p)) (filter (\<lambda>r. take (length p) r = p) rs)"

definition opt :: "(string list \<Rightarrow> string list) \<Rightarrow> string list \<Rightarrow> string list" where
  "opt f rs = f rs @ rs"

text \<open>\<^verbatim>\<open>[\w-]+\<close>: at least one word character or hyphen follows.\<close>

definition word_run :: "string list \<Rightarrow> bool" where
  "word_run rs =
     list_ex (\<lambda>r. case r of [] \<Rightarrow> False | c # cs \<Rightarrow> is_word_char c \<or> c = CHR ''-'') rs"

text \<open>\<^verbatim>\<open>^(https?://)?(www\.)?(youtube\.com|music\.youtube\.com)/\<close>, common to both.\<close>

definition url_head :: "string \<Rightarrow> string list" where
  "url_head url =
     (let r1 = opt (\<lambda>rs. lit ''://'' (opt (lit ''s'') (lit ''http'' rs))) [map lower_char url];
          r2 = opt (lit ''www.'') r1;
          r3 = lit ''youtube.com'' r2 @ lit ''music.youtube.com'' r2
      in lit ''/'' r3)"

text \<open>\<^verbatim>\<open>(watch\?v=|shorts/)[\w-]+\<close> after the head.\<close>

definition YOUTUBE_VIDEO_PATTERN :: "string \<Rightarrow> bool" where
  "YOUTUBE_VIDEO_PATTERN url =
     word_run (lit ''watch?v='' (url_head url) @ lit ''shorts/'' (url_head url))"

text \<open>\<^verbatim>\<open>playlist\?list=[\w-]+\<close> after the head.\<close>

definition YOUTUBE_PLAYLIST_PATTERN :: "string \<Rightarrow> bool" where
  "YOUTUBE_PLAYLIST_PATTERN url = word_run (lit ''playlist?list='' (url_head url))"

text \<open>\<^verbatim>\<open>is_valid\<close>: a falsy argument (\<^verbatim>\<open>None\<close> or the empty string) is not valid.\<close>

definition is_valid :: "string option \<Rightarrow> bool" where
  "is_valid url =
     (case url of
        None \<Rightarrow> False
      | Some u \<Rightarrow> u \<noteq> [] \<and> (YOUTUBE_VIDEO_PATTERN u \<or> YOUTUBE_PLAYLIST_PATTERN u))"

subsection \<open>Construction\<close>

record youtube_data =
  query :: "string option"

text \<open>
  \<^verbatim>\<open>self.query = None if not query else query.split("&")[0] if query and "&" in query else query\<close>
\<close>

definition init :: "string option \<Rightarrow> youtube_data" where
  "init q =
     \<lparr>query =
        (case q of
           None \<Rightarrow> None
         | Some s \<Rightarrow>
             if s = [] then None
             else if CHR ''&'' \<in> set s then Some (hd (py_split ''&'' s))
             else Some s)\<rparr>"

subsection \<open>Duration normalisation\<close>

text \<open>
  \<^verbatim>\<open>_duration_to_seconds\<close>: a falsy argument gives 0; otherwise the string is split at
  the colons and each part goes through \<^verbatim>\<open>int\<close>, left to right. A truthy value that
  is not a string has no \<^verbatim>\<open>split\<close>.
\<close>

definition clock_to_seconds :: "string \<Rightarrow> py_error + int" where
  "clock_to_seconds s =
     (case py_split '':'' s of
        [h, m, sec] \<Rightarrow>
          and_then (py_int h) (\<lambda>hours.
          and_then (py_int m) (\<lambda>minutes.
          and_then (py_int sec) (\<lambda>seconds.
            Inr (hours * 3600 + minutes * 60 + seconds))))
      | [m, sec] \<Rightarrow>
          and_then (py_int m) (\<lambda>minutes.
          and_then (py_int sec) (\<lambda>seconds.
            Inr (minutes * 60 + seconds)))
      | _ \<Rightarrow> Inr 0)"

fun duration_to_seconds :: "py_val \<Rightarrow> py_error + int" where
  "duration_to_seconds (PStr s) = (if s = [] then Inr 0 else clock_to_seconds s)"
| "duration_to_seconds v = (if truthy v then Inl AttributeError else Inr 0)"

subsection \<open>Tracks\<close>

text \<open>
  The dictionary that \<^verbatim>\<open>_format_track\<close> and \<^verbatim>\<open>_get_youtube_url\<close> build for one track, and
  the \<^verbatim>\<open>MusicTrack\<close> made from it by \<^verbatim>\<open>MusicTrack(**track)\<close>, which takes the same
  keys (its class is declared in \<^verbatim>\<open>dataclass.py\<close>).
\<close>

record music_track =
  track_id :: py_val
  name :: py_val
  duration :: int
  artist :: py_val
  cover :: py_val
  year :: int
  platform :: string

datatype platform_tracks = PlatformTracks (tracks: "music_track list")

text \<open>
  What \<^verbatim>\<open>_fetch_data\<close> hands back: the dictionary \<^verbatim>\<open>{"results": [...]}\<close>, or, from its
  last branch, the \<^verbatim>\<open>PlatformTracks\<close> object that \<^verbatim>\<open>search\<close> returned.
\<close>

datatype fetched = Results "music_track list" | Searched platform_tracks

definition format_track :: "py_val \<Rightarrow> py_error + music_track" where
  "format_track track_data =
     and_then (py_get track_data ''id'' PNone) (\<lambda>vid.
     and_then (py_get track_data ''title'' PNone) (\<lambda>title.
     and_then (py_get track_data ''duration'' (PStr ''0:00'')) (\<lambda>dur.
     and_then (duration_to_seconds dur) (\<lambda>seconds.
     and_then (py_get track_data ''channel'' (PDict [])) (\<lambda>channel.
     and_then (py_get channel ''name'' (PStr ''Unknown'')) (\<lambda>channel_name.
     and_then (py_get track_data ''thumbnails'' (PList [PDict []])) (\<lambda>thumbnails.
     and_then (py_last thumbnails) (\<lambda>thumbnail.
     and_then (py_get thumbnail ''url'' (PStr [])) (\<lambda>url.
       Inr \<lparr>track_id = vid, name = title, duration = seconds, artist = channel_name,
            cover = url, year = 0, platform = ''youtube''\<rparr>)))))))))"

text \<open>
  The \<^verbatim>\<open>TrackInfo\<close> that \<^verbatim>\<open>get_track\<close> builds, its arguments in the order of the call:
  cdnurl, key, name, artist, tc, album, cover, lyrics, duration, year.
\<close>

datatype track_info =
  TrackInfo string string py_val py_val py_val string py_val string int int

subsection \<open>The collaborators of the backend\<close>

text \<open>
  The HTTP client, the search and playlist library and the downloader are outside the
  module; each is a function that returns a payload or raises. The last field is the
  test \<^verbatim>\<open>"results" in data\<close> on a \<^verbatim>\<open>PlatformTracks\<close> object, which its class decides.
\<close>

record yt_env =
  make_request :: "string \<Rightarrow> py_error + py_val"
  videos_search :: "string \<Rightarrow> py_error + py_val"
  playlist_videos :: "string \<Rightarrow> py_error + py_val"
  download :: "track_info \<Rightarrow> py_error + string option"
  tracks_has_results :: "platform_tracks \<Rightarrow> py_error + bool"

subsection \<open>Fetching\<close>

definition get_youtube_url :: "yt_env \<Rightarrow> string \<Rightarrow> py_error + music_track list option" where
  "get_youtube_url env url =
     and_then (make_request env (''https://www.youtube.com/oembed?url='' @ url @ ''&format=json''))
       (\<lambda>data.
          if truthy data then
            and_then (py_index (py_split ''v='' url) 1) (\<lambda>vid.
            and_then (py_get data ''title'' PNone) (\<lambda>title.
            and_then (py_get data ''author_name'' (PStr [])) (\<lambda>author.
            and_then (py_get data ''thumbnail_url'' (PStr [])) (\<lambda>thumbnail.
              Inr (Some
                [\<lparr>track_id = PStr vid, name = title, duration = 0, artist = author,
                  cover = thumbnail, year = 0, platform = ''youtube''\<rparr>])))))
          else Inr None)"

text \<open>
  \<^verbatim>\<open>_get_playlist\<close>: only the call of the library is inside the \<^verbatim>\<open>try\<close>; the
  comprehension that formats the videos runs after it.
\<close>

definition get_playlist :: "yt_env \<Rightarrow> string \<Rightarrow> py_error + music_track list option" where
  "get_playlist env url =
     (case playlist_videos env url of
        Inl e \<Rightarrow> Inr None
      | Inr playlist \<Rightarrow>
          if truthy playlist then
            and_then (py_get playlist ''videos'' (PList [])) (\<lambda>videos.
            and_then (py_iter videos) (\<lambda>vs.
            and_then (map_m format_track vs) (\<lambda>results.
              Inr (Some results))))
          else Inr None)"

text \<open>
  \<^verbatim>\<open>self._create_platform_tracks(data) if data else None\<close>, the last line of
  \<^verbatim>\<open>get_info\<close> and of \<^verbatim>\<open>search\<close>. The dictionary always has the key \<^verbatim>\<open>"results"\<close>. For
  a \<^verbatim>\<open>PlatformTracks\<close> object, which is truthy, the membership test is its class's;
  when it succeeds the subscript \<^verbatim>\<open>data["results"]\<close> that follows is not defined on the
  object.
\<close>

definition create_platform_tracks ::
  "yt_env \<Rightarrow> fetched option \<Rightarrow> py_error + platform_tracks option" where
  "create_platform_tracks env data =
     (case data of
        None \<Rightarrow> Inr None
      | Some (Results rs) \<Rightarrow> Inr (Some (PlatformTracks rs))
      | Some (Searched pt) \<Rightarrow>
          and_then (tracks_has_results env pt) (\<lambda>b. if b then Inl TypeError else Inr None))"

text \<open>The text search of \<^verbatim>\<open>search\<close>: everything is inside the \<^verbatim>\<open>try\<close>.\<close>

definition search_videos :: "yt_env \<Rightarrow> string \<Rightarrow> music_track list option" where
  "search_videos env q =
     (case videos_search env q of
        Inl e \<Rightarrow> None
      | Inr results \<Rightarrow>
          (case results of
             PDict kvs \<Rightarrow>
               (case map_of kvs ''result'' of
                  None \<Rightarrow> None
                | Some videos \<Rightarrow>
                    (case and_then (py_iter videos) (map_m format_track) of
                       Inl e \<Rightarrow> None
                     | Inr rs \<Rightarrow> Some rs))
           | _ \<Rightarrow> None))"

text \<open>
  \<^verbatim>\<open>search\<close> and \<^verbatim>\<open>_fetch_data\<close> call each other: \<^verbatim>\<open>search\<close> fetches a query that is a
  URL of the backend, \<^verbatim>\<open>_fetch_data\<close> falls back to \<^verbatim>\<open>search\<close> for a URL that matches
  neither pattern.
\<close>

function search :: "yt_env \<Rightarrow> youtube_data \<Rightarrow> py_error + platform_tracks option"
  and fetch_data :: "yt_env \<Rightarrow> youtube_data \<Rightarrow> string \<Rightarrow> py_error + fetched option" where
  "search env self =
     (case query self of
        None \<Rightarrow> Inr None
      | Some q \<Rightarrow>
          if q = [] then Inr None
          else if is_valid (Some q) then
            and_then (fetch_data env self q) (create_platform_tracks env)
          else create_platform_tracks env (map_option Results (search_videos env q)))"
| "fetch_data env self url =
     (if YOUTUBE_VIDEO_PATTERN url then
        and_then (get_youtube_url env url) (\<lambda>d. Inr (map_option Results d))
      else if YOUTUBE_PLAYLIST_PATTERN url then
        and_then (get_playlist env url) (\<lambda>d. Inr (map_option Results d))
      else and_then (search env self) (\<lambda>r. Inr (map_option Searched r)))"
  by pat_completeness auto
termination
  by (relation "measure (\<lambda>x. case x of
          Inl (env, self) \<Rightarrow> (if is_valid (query self) then 1 else 0)
        | Inr (env, self, url) \<Rightarrow>
            (if YOUTUBE_VIDEO_PATTERN url \<or> YOUTUBE_PLAYLIST_PATTERN url then 0 else 2))")
     (auto simp: is_valid_def)

declare search.simps [simp del] fetch_data.simps [simp del]

definition get_info :: "yt_env \<Rightarrow> youtube_data \<Rightarrow> py_error + platform_tracks option" where
  "get_info env self =
     (if is_valid (query self) then
        (case query self of
           None \<Rightarrow> Inr None
         | Some q \<Rightarrow> and_then (fetch_data env self q) (create_platform_tracks env))
      else Inr None)"

text \<open>
  \<^verbatim>\<open>get_track\<close> and \<^verbatim>\<open>download_track\<close>: the whole body is inside a \<^verbatim>\<open>try\<close> whose handler
  returns \<^verbatim>\<open>None\<close>.
\<close>

definition get_track :: "yt_env \<Rightarrow> youtube_data \<Rightarrow> track_info option" where
  "get_track env self =
     (let url = ''https://youtube.com/watch?v=''
                  @ (case query self of None \<Rightarrow> ''None'' | Some q \<Rightarrow> q)
      in case and_then (get_youtube_url env url) (\<lambda>data.
                case data of
                  None \<Rightarrow> Inr None
                | Some results \<Rightarrow>
                    and_then (py_index results 0) (\<lambda>track_data.
                      Inr (Some (TrackInfo ''None'' ''None'' (name track_data)
                        (artist track_data) (track_id track_data) ''YouTube''
                        (cover track_data) ''None'' (duration track_data) 0)))) of
           Inl e \<Rightarrow> None
         | Inr r \<Rightarrow> r)"

definition download_track :: "yt_env \<Rightarrow> track_info \<Rightarrow> string option" where
  "download_track env track =
     (case download env track of Inl e \<Rightarrow> None | Inr r \<Rightarrow> r)"

section \<open>The command handlers\<close>

subsection \<open>Messages, collaborators and what a handler does\<close>

text \<open>
  A handler of \<^verbatim>\<open>funcs.py\<close> reads a message and talks to its collaborators: the chat
  cache, the admin check, the argument parser and the voice engine \<^verbatim>\<open>call\<close>. None of
  them is in the module, so each is a field of the environment. A handler's result is
  the list of the calls it made and the replies it sent, in order, and the exception
  that left it, if one did. A query of a collaborator is taken to answer; a command of
  the engine or of the cache may raise, with the message the field gives.
\<close>

record message =
  chat_id :: int
  from_user :: int
  msg_text :: string

record cached_track =
  song_duration :: int
  file_path :: string

datatype engine_call =
    End int
  | Pause int
  | Resume int
  | Mute int
  | Unmute int
  | PlayNext int
  | ChangeVolume int int
  | SpeedChange int py_float
  | SeekStream int string int int
  | PlayedTime int

datatype cache_call =
    IsActive int
  | GetQueue int
  | GetCurrentSong int
  | RemoveTrack int int

datatype reply =
    NoSongPlaying
  | AdminRequired
  | Usage
  | InvalidSeconds
  | CannotSeekPast int
  | UseMute
  | VolumeOutOfRange
  | QueueEmpty
  | InvalidTrackNumber nat
  | Success
  | Failure string

datatype event =
    Cache cache_call
  | IsAdmin int int
  | Engine engine_call
  | DelMsg
  | Reply reply

record env =
  is_active :: "int \<Rightarrow> bool"
  is_admin :: "int \<Rightarrow> int \<Rightarrow> bool"
  extract_argument :: "string \<Rightarrow> string option"
  get_queue :: "int \<Rightarrow> cached_track list"
  get_current_song :: "int \<Rightarrow> cached_track option"
  played_time :: "int \<Rightarrow> int"
  engine_error :: "engine_call \<Rightarrow> string option"
  cache_error :: "cache_call \<Rightarrow> string option"
  del_msg_error :: "message \<Rightarrow> string option"

type_synonym outcome = "event list \<times> py_error option"

text \<open>The calls that reached the voice engine, and those that changed the cache.\<close>

fun engine_calls :: "event list \<Rightarrow> engine_call list" where
  "engine_calls [] = []"
| "engine_calls (Engine c # es) = c # engine_calls es"
| "engine_calls (e # es) = engine_calls es"

fun seek_calls :: "event list \<Rightarrow> engine_call list" where
  "seek_calls [] = []"
| "seek_calls (Engine (SeekStream c p t d) # es) = SeekStream c p t d # seek_calls es"
| "seek_calls (e # es) = seek_calls es"

fun removals :: "event list \<Rightarrow> cache_call list" where
  "removals [] = []"
| "removals (Cache (RemoveTrack c i) # es) = RemoveTrack c i # removals es"
| "removals (e # es) = removals es"

fun replies :: "event list \<Rightarrow> reply list" where
  "replies [] = []"
| "replies (Reply r # es) = r # replies es"
| "replies (e # es) = replies es"

text \<open>
  A command inside \<^verbatim>\<open>try: ... except Exception as e\<close>: the call is made, then the
  success text or the error text is sent.
\<close>

definition try_engine :: "env \<Rightarrow> engine_call \<Rightarrow> event list" where
  "try_engine env c =
     (case engine_error env c of
        None \<Rightarrow> [Engine c, Reply Success]
      | Some e \<Rightarrow> [Engine c, Reply (Failure e)])"

subsection \<open>The guard shared by the playback commands\<close>

text \<open>
  \<^verbatim>\<open>is_admin_or_reply\<close> returns the chat id, or the message it replied with; the model
  returns \<open>Some\<close> chat id or \<open>None\<close>, with the events.
\<close>

definition is_admin_or_reply :: "env \<Rightarrow> message \<Rightarrow> event list \<times> int option" where
  "is_admin_or_reply env msg =
     (let cid = chat_id msg in
      if is_active env cid then
        (if is_admin env cid (from_user msg) then
           ([Cache (IsActive cid), IsAdmin cid (from_user msg)], Some cid)
         else
           ([Cache (IsActive cid), IsAdmin cid (from_user msg), Reply AdminRequired], None))
      else ([Cache (IsActive cid), Reply NoSongPlaying], None))"

definition handle_playback_action :: "env \<Rightarrow> message \<Rightarrow> (int \<Rightarrow> engine_call) \<Rightarrow> outcome" where
  "handle_playback_action env msg action =
     (case is_admin_or_reply env msg of
        (evs, None) \<Rightarrow> (evs, None)
      | (evs, Some cid) \<Rightarrow> (evs @ try_engine env (action cid), None))"

subsection \<open>The handlers\<close>

text \<open>
  \<^verbatim>\<open>extract_argument(msg.text, enforce_digit=True)\<close> gives a string or \<^verbatim>\<open>None\<close>;
  \<^verbatim>\<open>not args\<close> holds for \<^verbatim>\<open>None\<close> and for the empty string.
\<close>

definition no_args :: "string option \<Rightarrow> bool" where
  "no_args args = (case args of None \<Rightarrow> True | Some a \<Rightarrow> a = [])"

definition seek_song :: "env \<Rightarrow> message \<Rightarrow> outcome" where
  "seek_song env msg =
     (let cid = chat_id msg in
      if cid > 0 then ([], None)
      else
        (case extract_argument env (msg_text msg) of
           None \<Rightarrow> ([Reply Usage], None)
         | Some args \<Rightarrow>
             if args = [] then ([Reply Usage], None)
             else
               (case py_int args of
                  Inl e \<Rightarrow> ([], Some e)
                | Inr seek_time \<Rightarrow>
                    if seek_time < 20 then ([Reply InvalidSeconds], None)
                    else
                      (case get_current_song env cid of
                         None \<Rightarrow> ([Cache (GetCurrentSong cid), Reply NoSongPlaying], None)
                       | Some curr_song \<Rightarrow>
                           (let curr_dur = played_time env cid;
                                seek_to = curr_dur + seek_time
                            in if seek_to \<ge> song_duration curr_song then
                                 ([Cache (GetCurrentSong cid), Engine (PlayedTime cid),
                                   Reply (CannotSeekPast (song_duration curr_song))], None)
                               else
                                 ([Cache (GetCurrentSong cid), Engine (PlayedTime cid)]
                                  @ try_engine env
                                      (SeekStream cid (file_path curr_song) seek_to
                                         (song_duration curr_song)), None))))))"

text \<open>
  \<^verbatim>\<open>extract_number\<close>: \<^verbatim>\<open>re.search(r"[-+]?\d*\.?\d+", text)\<close>, then \<^verbatim>\<open>float\<close> of the match.
  The search takes the first position of the text at which the pattern matches. There
  the pattern takes a sign if one is present, then the longest run of digits, then a
  point and the longest run of digits after it if that run is not empty; without such
  a fraction the match is the first run of digits, which must not be empty.
\<close>

definition number_body :: "string \<Rightarrow> string option" where
  "number_body u =
     (let d = takeWhile is_digit u
      in case dropWhile is_digit u of
           [] \<Rightarrow> (if d = [] then None else Some d)
         | c # r \<Rightarrow>
             if c = CHR ''.'' \<and> takeWhile is_digit r \<noteq> [] then
               Some (d @ CHR ''.'' # takeWhile is_digit r)
             else if d = [] then None
             else Some d)"

definition number_at :: "string \<Rightarrow> string option" where
  "number_at t =
     (case t of
        [] \<Rightarrow> None
      | c # cs \<Rightarrow>
          if c = CHR ''-'' \<or> c = CHR ''+'' then map_option (Cons c) (number_body cs)
          else number_body t)"

fun number_search :: "string \<Rightarrow> string option" where
  "number_search [] = None"
| "number_search (c # cs) =
     (case number_at (c # cs) of
        Some m \<Rightarrow> Some m
      | None \<Rightarrow> number_search cs)"

definition extract_number :: "string \<Rightarrow> py_float option" where
  "extract_number t = map_option FloatOf (number_search t)"

text \<open>
  \<^verbatim>\<open>change_speed\<close>: the speed is \<^verbatim>\<open>round(float(args), 2)\<close>, where \<open>args\<close> is already the
  float that \<^verbatim>\<open>extract_number\<close> returned.
\<close>

definition change_speed :: "env \<Rightarrow> message \<Rightarrow> outcome" where
  "change_speed env msg =
     (let cid = chat_id msg in
      if cid > 0 then ([], None)
      else
        (case extract_number (msg_text msg) of
           None \<Rightarrow> ([Reply Usage], None)
         | Some args \<Rightarrow>
             if is_admin env cid (from_user msg) then
               (if is_active env cid then
                  (let speed = Round2 args
                   in ([IsAdmin cid (from_user msg), Cache (IsActive cid)]
                       @ try_engine env (SpeedChange cid speed), None))
                else
                  ([IsAdmin cid (from_user msg), Cache (IsActive cid), Reply NoSongPlaying],
                   None))
             else ([IsAdmin cid (from_user msg), Reply AdminRequired], None)))"

definition remove_song :: "env \<Rightarrow> message \<Rightarrow> outcome" where
  "remove_song env msg =
     (let cid = chat_id msg in
      if cid > 0 then ([], None)
      else
        (let args = extract_argument env (msg_text msg) in
         if is_admin env cid (from_user msg) then
           (if is_active env cid then
              (case args of
                 None \<Rightarrow>
                   ([IsAdmin cid (from_user msg), Cache (IsActive cid), Reply Usage], None)
               | Some a \<Rightarrow>
                   if a = [] then
                     ([IsAdmin cid (from_user msg), Cache (IsActive cid), Reply Usage], None)
                   else
                     (case py_int a of
                        Inl e \<Rightarrow> ([IsAdmin cid (from_user msg), Cache (IsActive cid)], Some e)
                      | Inr track_num \<Rightarrow>
                          (let queue = get_queue env cid;
                               evs = [IsAdmin cid (from_user msg), Cache (IsActive cid),
                                      Cache (GetQueue cid)]
                           in if queue = [] then (evs @ [Reply QueueEmpty], None)
                              else if track_num \<le> 0 \<or> track_num > int (length queue) then
                                (evs @ [Reply (InvalidTrackNumber (length queue))], None)
                              else
                                (case cache_error env (RemoveTrack cid track_num) of
                                   None \<Rightarrow>
                                     (evs @ [Cache (RemoveTrack cid track_num), Reply Success],
                                      None)
                                 | Some e \<Rightarrow>
                                     (evs @ [Cache (RemoveTrack cid track_num),
                                             Reply (Failure e)], None)))))
            else
              ([IsAdmin cid (from_user msg), Cache (IsActive cid), Reply NoSongPlaying], None))
         else ([IsAdmin cid (from_user msg), Reply AdminRequired], None)))"

definition stop_song :: "env \<Rightarrow> message \<Rightarrow> outcome" where
  "stop_song env msg =
     (case is_admin_or_reply env msg of
        (evs, None) \<Rightarrow> (evs, None)
      | (evs, Some cid) \<Rightarrow> (evs @ try_engine env (End cid), None))"

definition pause_song :: "env \<Rightarrow> message \<Rightarrow> outcome" where
  "pause_song env msg = handle_playback_action env msg Pause"

definition resume :: "env \<Rightarrow> message \<Rightarrow> outcome" where
  "resume env msg = handle_playback_action env msg Resume"

definition mute_song :: "env \<Rightarrow> message \<Rightarrow> outcome" where
  "mute_song env msg = handle_playback_action env msg Mute"

definition unmute_song :: "env \<Rightarrow> message \<Rightarrow> outcome" where
  "unmute_song env msg = handle_playback_action env msg Unmute"

definition volume :: "env \<Rightarrow> message \<Rightarrow> outcome" where
  "volume env msg =
     (case is_admin_or_reply env msg of
        (evs, None) \<Rightarrow> (evs, None)
      | (evs, Some cid) \<Rightarrow>
          (case extract_argument env (msg_text msg) of
             None \<Rightarrow> (evs @ [Reply Usage], None)
           | Some args \<Rightarrow>
               if args = [] then (evs @ [Reply Usage], None)
               else
                 (case py_int args of
                    Inl e \<Rightarrow> (evs, Some e)
                  | Inr vol_int \<Rightarrow>
                      if vol_int = 0 then (evs @ [Reply UseMute], None)
                      else if 1 \<le> vol_int \<and> vol_int \<le> 200 then
                        (evs @ try_engine env (ChangeVolume cid vol_int), None)
                      else (evs @ [Reply VolumeOutOfRange], None))))"

definition skip_song :: "env \<Rightarrow> message \<Rightarrow> outcome" where
  "skip_song env msg =
     (case is_admin_or_reply env msg of
        (evs, None) \<Rightarrow> (evs, None)
      | (evs, Some cid) \<Rightarrow>
          (case del_msg_error env msg of
             Some e \<Rightarrow> (evs @ [DelMsg, Reply (Failure e)], None)
           | None \<Rightarrow> (evs @ [DelMsg] @ try_engine env (PlayNext cid), None)))"

subsection \<open>A chat to run the handlers on\<close>

text \<open>
  Modelled from the spec: the three states of a chat in the controller's state machine,
  \<open>Idle\<close>, \<open>Playing\<close> and \<open>Paused\<close>. The module keeps no such state: all a handler can
  ask is \<^verbatim>\<open>chat_cache.is_active\<close>, the flag that a stream is attached to the voice
  engine, which holds while the chat plays and while it is paused.
\<close>

datatype chat_state = Idle | Playing | Paused

text \<open>
  The collaborators around one chat in a given state, with a 180 second song at its
  head of which 10 seconds are played, a queue of three songs, an engine that does not
  fail, and an argument parser that returns what follows the command word.
\<close>

definition after_command :: "string \<Rightarrow> string option" where
  "after_command t = (case py_split '' '' t of [c, a] \<Rightarrow> Some a | _ \<Rightarrow> None)"

definition chat_env :: "chat_state \<Rightarrow> bool \<Rightarrow> env" where
  "chat_env st admin =
     \<lparr>is_active = (\<lambda>c. st \<noteq> Idle),
      is_admin = (\<lambda>c u. admin),
      extract_argument = after_command,
      get_queue = (\<lambda>c. [\<lparr>song_duration = 180, file_path = ''a.mp3''\<rparr>,
                          \<lparr>song_duration = 200, file_path = ''b.mp3''\<rparr>,
                          \<lparr>song_duration = 90, file_path = ''c.mp3''\<rparr>]),
      get_current_song = (\<lambda>c. Some \<lparr>song_duration = 180, file_path = ''a.mp3''\<rparr>),
      played_time = (\<lambda>c. 10),
      engine_error = (\<lambda>c. None),
      cache_error = (\<lambda>c. None),
      del_msg_error = (\<lambda>m. None)\<rparr>"

section \<open>Properties of the command handlers\<close>

lemma engine_calls_try_engine: "engine_calls (try_engine env c) = [c]"
  by (simp add: try_engine_def split: option.splits)


lemma seek_calls_try_engine:
  "seek_calls (try_engine env (SeekStream c p t d)) = [SeekStream c p t d]"
  by (simp add: try_engine_def split: option.splits)

lemma removals_try_engine: "removals (try_engine env c) = []"
  by (simp add: try_engine_def split: option.splits)

text \<open>
  C2. In a group chat (the handler returns at once for a private chat, whose id is
  positive) with a current song of duration \<open>D\<close>, of which the engine reports \<open>E\<close>
  seconds played, \<^verbatim>\<open>/seek\<close> with the delta \<open>d\<close> makes no seek call when \<open>d < 20\<close> or
  \<open>E + d \<ge> D\<close>, and replies with the rejection; otherwise it makes exactly one seek
  call, to the absolute target \<open>E + d\<close> with the total duration \<open>D\<close>. No exception
  leaves the handler.
\<close>

theorem seek_song_checks_then_seeks:
  assumes "chat_id msg \<le> 0"
    and "extract_argument env (msg_text msg) = Some a" and "a \<noteq> []"
    and "py_int a = Inr d"
    and "get_current_song env (chat_id msg) = Some song"
    and "song_duration song = D"
    and "played_time env (chat_id msg) = E"
  shows "seek_calls (fst (seek_song env msg)) =
           (if d < 20 \<or> E + d \<ge> D then []
            else [SeekStream (chat_id msg) (file_path song) (E + d) D])
         \<and> (d < 20 \<longrightarrow> replies (fst (seek_song env msg)) = [InvalidSeconds])
         \<and> (20 \<le> d \<and> E + d \<ge> D \<longrightarrow> replies (fst (seek_song env msg)) = [CannotSeekPast D])
         \<and> snd (seek_song env msg) = None"
  using assms
  by (simp add: seek_song_def Let_def seek_calls_try_engine)

theorem seek_song_checks_then_seeks_witness:
  "seek_calls (fst (seek_song (chat_env Playing True)
       \<lparr>chat_id = -100, from_user = 7, msg_text = ''/seek 30''\<rparr>))
     = [SeekStream (-100) ''a.mp3'' 40 180]
   \<and> seek_calls (fst (seek_song (chat_env Playing True)
       \<lparr>chat_id = -100, from_user = 7, msg_text = ''/seek 10''\<rparr>)) = []"
proof -
  let ?env = "chat_env Playing True"
  let ?m = "\<lparr>chat_id = -100, from_user = 7, msg_text = ''/seek 30''\<rparr>"
  let ?m' = "\<lparr>chat_id = -100, from_user = 7, msg_text = ''/seek 10''\<rparr>"
  have a: "extract_argument ?env (msg_text ?m) = Some ''30''"
    by (simp add: chat_env_def after_command_def)
  have a': "extract_argument ?env (msg_text ?m') = Some ''10''"
    by (simp add: chat_env_def after_command_def)
  have d: "py_int ''30'' = Inr 30" by code_simp
  have d': "py_int ''10'' = Inr 10" by code_simp
  have s: "get_current_song ?env (chat_id ?m) = Some \<lparr>song_duration = 180, file_path = ''a.mp3''\<rparr>"
    "get_current_song ?env (chat_id ?m') = Some \<lparr>song_duration = 180, file_path = ''a.mp3''\<rparr>"
    by (simp_all add: chat_env_def)
  have e: "played_time ?env (chat_id ?m) = 10" "played_time ?env (chat_id ?m') = 10"
    by (simp_all add: chat_env_def)
  show ?thesis
    using seek_song_checks_then_seeks [OF _ a _ d s(1) _ e(1), of 180]
      seek_song_checks_then_seeks [OF _ a' _ d' s(2) _ e(2), of 180]
    by simp
qed

text \<open>
  C4. When the argument of \<^verbatim>\<open>/volume\<close> parses to \<open>v\<close>, the only call that can reach
  the voice engine is \<^verbatim>\<open>change_volume\<close> with \<open>v\<close>, and it is made exactly when the chat is
  active, the sender is an admin and \<open>1 \<le> v \<le> 200\<close>. For \<open>v = 0\<close> and for every other
  \<open>v\<close> outside the range the handler only replies with a rejection, whatever the state
  of the chat; with an active chat and an admin the rejection of 0 is the hint to use
  \<^verbatim>\<open>/mute\<close>.
\<close>

theorem volume_reaches_engine_only_in_range:
  assumes "extract_argument env (msg_text msg) = Some a" and "a \<noteq> []"
    and "py_int a = Inr v"
  shows "engine_calls (fst (volume env msg)) =
           (if is_active env (chat_id msg) \<and> is_admin env (chat_id msg) (from_user msg)
               \<and> 1 \<le> v \<and> v \<le> 200
            then [ChangeVolume (chat_id msg) v] else [])
         \<and> (v < 1 \<or> 200 < v \<longrightarrow>
              replies (fst (volume env msg)) =
                [if is_active env (chat_id msg) then
                   (if is_admin env (chat_id msg) (from_user msg) then
                      (if v = 0 then UseMute else VolumeOutOfRange)
                    else AdminRequired)
                 else NoSongPlaying])
         \<and> snd (volume env msg) = None"
  using assms
  by (simp add: volume_def is_admin_or_reply_def Let_def engine_calls_try_engine)

theorem volume_reaches_engine_only_in_range_witness:
  "engine_calls (fst (volume (chat_env Playing True)
       \<lparr>chat_id = -100, from_user = 7, msg_text = ''/volume 0''\<rparr>)) = []
   \<and> replies (fst (volume (chat_env Idle True)
       \<lparr>chat_id = -100, from_user = 7, msg_text = ''/volume 0''\<rparr>)) = [NoSongPlaying]
   \<and> engine_calls (fst (volume (chat_env Playing True)
       \<lparr>chat_id = -100, from_user = 7, msg_text = ''/volume 201''\<rparr>)) = []
   \<and> engine_calls (fst (volume (chat_env Playing True)
       \<lparr>chat_id = -100, from_user = 7, msg_text = ''/volume 200''\<rparr>))
      = [ChangeVolume (-100) 200]"
proof -
  let ?m0 = "\<lparr>chat_id = -100, from_user = 7, msg_text = ''/volume 0''\<rparr>"
  let ?m1 = "\<lparr>chat_id = -100, from_user = 7, msg_text = ''/volume 201''\<rparr>"
  let ?m2 = "\<lparr>chat_id = -100, from_user = 7, msg_text = ''/volume 200''\<rparr>"
  have a: "extract_argument (chat_env st ad) (msg_text ?m0) = Some ''0''"
    "extract_argument (chat_env st ad) (msg_text ?m1) = Some ''201''"
    "extract_argument (chat_env st ad) (msg_text ?m2) = Some ''200''" for st ad
    by (simp_all add: chat_env_def after_command_def)
  have v: "py_int ''0'' = Inr 0" "py_int ''201'' = Inr 201" "py_int ''200'' = Inr 200"
    by code_simp+
  have e: "is_active (chat_env Playing True) c" "\<not> is_active (chat_env Idle True) c"
    "is_admin (chat_env st True) c u" for c u st
    by (simp_all add: chat_env_def)
  show ?thesis
    using volume_reaches_engine_only_in_range [OF a(1) _ v(1), of Playing True]
      volume_reaches_engine_only_in_range [OF a(1) _ v(1), of Idle True]
      volume_reaches_engine_only_in_range [OF a(2) _ v(2), of Playing True]
      volume_reaches_engine_only_in_range [OF a(3) _ v(3), of Playing True]
    by (simp add: e)
qed

text \<open>
  C6. When the argument of \<^verbatim>\<open>/remove\<close> parses to the index \<open>i\<close> and the queue of the chat
  has length \<open>L\<close>, the cache is asked to remove a track only when \<open>1 \<le> i \<le> L\<close> (and
  then for the index \<open>i\<close>, once, in a group chat that is active, on the request of an
  admin); for \<open>i \<le> 0\<close> or \<open>i > L\<close> no removal is made and the reply is the rejection.
\<close>

theorem remove_song_checks_index:
  assumes "extract_argument env (msg_text msg) = Some a" and "a \<noteq> []"
    and "py_int a = Inr i"
    and "length (get_queue env (chat_id msg)) = L"
  shows "removals (fst (remove_song env msg)) =
           (if chat_id msg \<le> 0 \<and> is_admin env (chat_id msg) (from_user msg)
               \<and> is_active env (chat_id msg) \<and> 1 \<le> i \<and> i \<le> int L
            then [RemoveTrack (chat_id msg) i] else [])
         \<and> (chat_id msg \<le> 0 \<and> is_admin env (chat_id msg) (from_user msg)
               \<and> is_active env (chat_id msg) \<and> (i \<le> 0 \<or> i > int L) \<longrightarrow>
              replies (fst (remove_song env msg)) =
                [if L = 0 then QueueEmpty else InvalidTrackNumber L])
         \<and> snd (remove_song env msg) = None"
  using assms
  by (auto simp add: remove_song_def Let_def split: option.splits)

theorem remove_song_checks_index_witness:
  "removals (fst (remove_song (chat_env Playing True)
       \<lparr>chat_id = -100, from_user = 7, msg_text = ''/remove 3''\<rparr>))
     = [RemoveTrack (-100) 3]
   \<and> removals (fst (remove_song (chat_env Playing True)
       \<lparr>chat_id = -100, from_user = 7, msg_text = ''/remove 4''\<rparr>)) = []
   \<and> replies (fst (remove_song (chat_env Playing True)
       \<lparr>chat_id = -100, from_user = 7, msg_text = ''/remove 0''\<rparr>)) = [InvalidTrackNumber 3]"
proof -
  let ?env = "chat_env Playing True"
  let ?m3 = "\<lparr>chat_id = -100, from_user = 7, msg_text = ''/remove 3''\<rparr>"
  let ?m4 = "\<lparr>chat_id = -100, from_user = 7, msg_text = ''/remove 4''\<rparr>"
  let ?m0 = "\<lparr>chat_id = -100, from_user = 7, msg_text = ''/remove 0''\<rparr>"
  have a: "extract_argument ?env (msg_text ?m3) = Some ''3''"
    "extract_argument ?env (msg_text ?m4) = Some ''4''"
    "extract_argument ?env (msg_text ?m0) = Some ''0''"
    by (simp_all add: chat_env_def after_command_def)
  have i: "py_int ''3'' = Inr 3" "py_int ''4'' = Inr 4" "py_int ''0'' = Inr 0"
    by code_simp+
  have q: "length (get_queue ?env c) = 3" for c
    by (simp add: chat_env_def)
  have e: "is_active ?env c" "is_admin ?env c u" for c u
    by (simp_all add: chat_env_def)
  show ?thesis
    using remove_song_checks_index [OF a(1) _ i(1) q]
      remove_song_checks_index [OF a(2) _ i(2) q]
      remove_song_checks_index [OF a(3) _ i(3) q]
    by (simp add: e)
qed


text \<open>
  C10. On a chat that the cache does not mark active, each of \<^verbatim>\<open>/stop\<close>, \<^verbatim>\<open>/pause\<close>,
  \<^verbatim>\<open>/resume\<close>, \<^verbatim>\<open>/mute\<close>, \<^verbatim>\<open>/unmute\<close>, \<^verbatim>\<open>/volume\<close> and \<^verbatim>\<open>/skip\<close> asks the cache whether the
  chat is active, replies that no song is playing, and does nothing else: no call of
  the voice engine, and the admin check is not reached. On an active chat each of them
  asks the cache first and the admin check second.
\<close>

theorem inactive_chat_rejects_before_admin_check:
  "(\<not> is_active env (chat_id msg) \<longrightarrow>
      stop_song env msg = ([Cache (IsActive (chat_id msg)), Reply NoSongPlaying], None)
    \<and> pause_song env msg = ([Cache (IsActive (chat_id msg)), Reply NoSongPlaying], None)
    \<and> resume env msg = ([Cache (IsActive (chat_id msg)), Reply NoSongPlaying], None)
    \<and> mute_song env msg = ([Cache (IsActive (chat_id msg)), Reply NoSongPlaying], None)
    \<and> unmute_song env msg = ([Cache (IsActive (chat_id msg)), Reply NoSongPlaying], None)
    \<and> volume env msg = ([Cache (IsActive (chat_id msg)), Reply NoSongPlaying], None)
    \<and> skip_song env msg = ([Cache (IsActive (chat_id msg)), Reply NoSongPlaying], None))
   \<and> (is_active env (chat_id msg) \<longrightarrow>
        list_all (\<lambda>handler. take 2 (fst (handler env msg))
                     = [Cache (IsActive (chat_id msg)), IsAdmin (chat_id msg) (from_user msg)])
          [stop_song, pause_song, resume, mute_song, unmute_song, volume, skip_song])"
  by (simp add: stop_song_def pause_song_def resume_def mute_song_def unmute_song_def
      volume_def skip_song_def handle_playback_action_def is_admin_or_reply_def Let_def
      split: option.splits sum.splits)

theorem inactive_chat_rejects_before_admin_check_witness:
  "engine_calls (fst (skip_song (chat_env Idle True)
      \<lparr>chat_id = -100, from_user = 7, msg_text = ''/skip''\<rparr>)) = []
   \<and> fst (pause_song (chat_env Idle False)
      \<lparr>chat_id = -100, from_user = 7, msg_text = ''/pause''\<rparr>)
     = [Cache (IsActive (-100)), Reply NoSongPlaying]
   \<and> take 2 (fst (stop_song (chat_env Playing False)
      \<lparr>chat_id = -100, from_user = 7, msg_text = ''/stop''\<rparr>))
     = [Cache (IsActive (-100)), IsAdmin (-100) 7]"
proof -
  have e: "\<not> is_active (chat_env Idle ad) c" "is_active (chat_env Playing ad) c" for c ad
    by (simp_all add: chat_env_def)
  show ?thesis
    using inactive_chat_rejects_before_admin_check
        [of "chat_env Idle True" "\<lparr>chat_id = -100, from_user = 7, msg_text = ''/skip''\<rparr>"]
      inactive_chat_rejects_before_admin_check
        [of "chat_env Idle False" "\<lparr>chat_id = -100, from_user = 7, msg_text = ''/pause''\<rparr>"]
      inactive_chat_rejects_before_admin_check
        [of "chat_env Playing False" "\<lparr>chat_id = -100, from_user = 7, msg_text = ''/stop''\<rparr>"]
    by (simp add: e)
qed



text \<open>
  \<^verbatim>\<open>change_speed\<close> compares the number with no bound: in a group chat that is active, on
  the request of an admin, every number that \<^verbatim>\<open>extract_number\<close> finds goes, rounded, to
  the engine's \<^verbatim>\<open>speed_change\<close>.
\<close>

lemma change_speed_delegates_every_number:
  assumes "chat_id msg \<le> 0" and "extract_number (msg_text msg) = Some f"
    and "is_admin env (chat_id msg) (from_user msg)" and "is_active env (chat_id msg)"
  shows "engine_calls (fst (change_speed env msg)) = [SpeedChange (chat_id msg) (Round2 f)]"
  using assms by (simp add: change_speed_def Let_def engine_calls_try_engine)

text \<open>
  C5 at the input \<^verbatim>\<open>/speed 10\<close>: the number found is \<^verbatim>\<open>float("10")\<close>, which is outside
  \<open>[0.5, 4.0]\<close>, and the engine's \<^verbatim>\<open>speed_change\<close> is called with it, rounded.
\<close>

theorem change_speed_out_of_range_calls_engine:
  "engine_calls (fst (change_speed (chat_env Playing True)
      \<lparr>chat_id = -100, from_user = 7, msg_text = ''/speed 10''\<rparr>))
     = [SpeedChange (-100) (Round2 (FloatOf ''10''))]"
proof -
  have "extract_number ''/speed 10'' = Some (FloatOf ''10'')" by code_simp
  then show ?thesis
    by (simp add: change_speed_def Let_def engine_calls_try_engine chat_env_def)
qed

section \<open>Properties of the YouTube backend\<close>

subsection \<open>The stored query\<close>

lemma py_split_nonempty: "py_split sep s \<noteq> []"
  by (induction sep s rule: py_split.induct) (auto split: list.splits)

lemma hd_py_split_char: "hd (py_split [c] s) = takeWhile (\<lambda>x. x \<noteq> c) s"
  by (induction s) (auto simp: py_split_nonempty split: list.splits)

text \<open>
  C9. The constructor stores \<^verbatim>\<open>None\<close> for an absent or empty query, the query itself
  when it has no \<^verbatim>\<open>&\<close>, and otherwise the part of it before its first \<^verbatim>\<open>&\<close>. The
  methods \<^verbatim>\<open>is_valid\<close>, \<^verbatim>\<open>get_info\<close> and \<^verbatim>\<open>search\<close> read the stored field.
\<close>

theorem init_keeps_query_before_ampersand:
  "query (init None) = None
   \<and> query (init (Some [])) = None
   \<and> (s \<noteq> [] \<and> CHR ''&'' \<notin> set s \<longrightarrow> query (init (Some s)) = Some s)
   \<and> (CHR ''&'' \<in> set s \<longrightarrow>
        (\<exists>p rest. query (init (Some s)) = Some p \<and> s = p @ CHR ''&'' # rest
                   \<and> CHR ''&'' \<notin> set p))"
proof -
  have "CHR ''&'' \<in> set s \<Longrightarrow>
        \<exists>rest. s = takeWhile (\<lambda>x. x \<noteq> CHR ''&'') s @ CHR ''&'' # rest"
  proof -
    assume a: "CHR ''&'' \<in> set s"
    then have "dropWhile (\<lambda>x. x \<noteq> CHR ''&'') s \<noteq> []" by (simp add: dropWhile_eq_Nil_conv)
    then obtain y rest where d: "dropWhile (\<lambda>x. x \<noteq> CHR ''&'') s = y # rest"
      by (cases "dropWhile (\<lambda>x. x \<noteq> CHR ''&'') s") auto
    then have "y = CHR ''&''" using hd_dropWhile [of "\<lambda>x. x \<noteq> CHR ''&''" s] by auto
    with d have "s = takeWhile (\<lambda>x. x \<noteq> CHR ''&'') s @ CHR ''&'' # rest"
      using takeWhile_dropWhile_id [of "\<lambda>x. x \<noteq> CHR ''&''" s] by simp
    then show ?thesis ..
  qed
  moreover have "CHR ''&'' \<notin> set (takeWhile (\<lambda>x. x \<noteq> CHR ''&'') s)"
    by (auto dest: set_takeWhileD)
  ultimately show ?thesis
    by (auto simp: init_def hd_py_split_char)
qed

theorem init_keeps_query_before_ampersand_witness:
  "query (init (Some ''https://youtube.com/watch?v=abc&list=PL1&t=3''))
     = Some ''https://youtube.com/watch?v=abc''
   \<and> query (init (Some ''never gonna give you up'')) = Some ''never gonna give you up''"
proof -
  have q: "query (init (Some ''https://youtube.com/watch?v=abc&list=PL1&t=3''))
     = Some ''https://youtube.com/watch?v=abc''"
    by code_simp
  show ?thesis
    using init_keeps_query_before_ampersand [of "''never gonna give you up''"]
      init_keeps_query_before_ampersand [of "''https://youtube.com/watch?v=abc&list=PL1&t=3''"]
      q
    by simp
qed


subsection \<open>Comprehensions and the URL patterns\<close>

lemma and_then_Inr: "and_then x f = Inr y \<longleftrightarrow> (\<exists>a. x = Inr a \<and> f a = Inr y)"
  by (cases x) auto

lemma map_m_Inr:
  "map_m f xs = Inr ys \<Longrightarrow>
     length ys = length xs \<and> (\<forall>i<length xs. f (xs ! i) = Inr (ys ! i))"
proof (induction xs arbitrary: ys)
  case Nil
  then show ?case by simp
next
  case (Cons x xs)
  from Cons.prems obtain y zs where y: "f x = Inr y" "map_m f xs = Inr zs" "ys = y # zs"
    by (auto simp: and_then_Inr)
  from Cons.IH [OF y(2)] y show ?case
    by (auto simp: nth_Cons split: nat.splits)
qed

lemma format_track_fields:
  "format_track v = Inr t \<Longrightarrow> year t = 0 \<and> platform t = ''youtube''"
  by (auto simp: format_track_def and_then_Inr)

lemma lit_iff: "r \<in> set (lit p rs) \<longleftrightarrow> p @ r \<in> set rs"
proof
  assume "r \<in> set (lit p rs)"
  then obtain x where x: "x \<in> set rs" "take (length p) x = p" "r = drop (length p) x"
    by (auto simp: lit_def)
  have "take (length p) x @ drop (length p) x = x" by (rule append_take_drop_id)
  then have "p @ r = x" using x by simp
  then show "p @ r \<in> set rs" using x by simp
next
  assume "p @ r \<in> set rs"
  then show "r \<in> set (lit p rs)"
    by (force simp: lit_def image_iff)
qed

lemma set_opt: "set (opt f rs) = set (f rs) \<union> set rs"
  by (simp add: opt_def)

lemma word_run_Cons: "word_run rs \<Longrightarrow> \<exists>c cs. c # cs \<in> set rs"
proof -
  assume "word_run rs"
  then obtain x where x: "x \<in> set rs"
    "(case x of [] \<Rightarrow> False | c # cs \<Rightarrow> is_word_char c \<or> c = CHR ''-'')"
    by (auto simp: word_run_def list_ex_iff)
  show ?thesis
  proof (cases x)
    case Nil
    with x show ?thesis by simp
  next
    case (Cons c cs)
    with x(1) show ?thesis by blast
  qed
qed

lemma url_head_iff:
  "r \<in> set (url_head u) \<longleftrightarrow>
     (\<exists>h \<in> set [''http://www.youtube.com/'', ''https://www.youtube.com/'', ''www.youtube.com/'',
                 ''http://youtube.com/'', ''https://youtube.com/'', ''youtube.com/'',
                 ''http://www.music.youtube.com/'', ''https://www.music.youtube.com/'',
                 ''www.music.youtube.com/'', ''http://music.youtube.com/'',
                 ''https://music.youtube.com/'', ''music.youtube.com/'']. h @ r = map lower_char u)"
  unfolding url_head_def Let_def
  by (simp add: lit_iff set_opt) blast

lemma heads_apart:
  assumes "h \<in> set [''http://www.youtube.com/'', ''https://www.youtube.com/'', ''www.youtube.com/'',
              ''http://youtube.com/'', ''https://youtube.com/'', ''youtube.com/'',
              ''http://www.music.youtube.com/'', ''https://www.music.youtube.com/'',
              ''www.music.youtube.com/'', ''http://music.youtube.com/'',
              ''https://music.youtube.com/'', ''music.youtube.com/'']"
    and "h' \<in> set [''http://www.youtube.com/'', ''https://www.youtube.com/'', ''www.youtube.com/'',
              ''http://youtube.com/'', ''https://youtube.com/'', ''youtube.com/'',
              ''http://www.music.youtube.com/'', ''https://www.music.youtube.com/'',
              ''www.music.youtube.com/'', ''http://music.youtube.com/'',
              ''https://music.youtube.com/'', ''music.youtube.com/'']"
  shows "h @ ''playlist?list='' @ r \<noteq> h' @ ''watch?v='' @ r'
         \<and> h @ ''playlist?list='' @ r \<noteq> h' @ ''shorts/'' @ r'"
  using assms by auto

lemma patterns_disjoint:
  assumes P: "YOUTUBE_PLAYLIST_PATTERN u"
  shows "\<not> YOUTUBE_VIDEO_PATTERN u"
proof
  assume V: "YOUTUBE_VIDEO_PATTERN u"
  from P have "\<exists>c cs. c # cs \<in> set (lit ''playlist?list='' (url_head u))"
    unfolding YOUTUBE_PLAYLIST_PATTERN_def by (rule word_run_Cons)
  then obtain r where "r \<in> set (lit ''playlist?list='' (url_head u))" by blast
  then have "''playlist?list='' @ r \<in> set (url_head u)" by (simp only: lit_iff)
  then obtain h where h: "h \<in> set [''http://www.youtube.com/'', ''https://www.youtube.com/'', ''www.youtube.com/'',
              ''http://youtube.com/'', ''https://youtube.com/'', ''youtube.com/'',
              ''http://www.music.youtube.com/'', ''https://www.music.youtube.com/'',
              ''www.music.youtube.com/'', ''http://music.youtube.com/'',
              ''https://music.youtube.com/'', ''music.youtube.com/'']" "h @ ''playlist?list='' @ r = map lower_char u"
    unfolding url_head_iff by blast
  from V have "\<exists>c cs. c # cs \<in> set (lit ''watch?v='' (url_head u) @ lit ''shorts/'' (url_head u))"
    unfolding YOUTUBE_VIDEO_PATTERN_def by (rule word_run_Cons)
  then obtain r' where
    "r' \<in> set (lit ''watch?v='' (url_head u)) \<or> r' \<in> set (lit ''shorts/'' (url_head u))"
    by (auto simp only: set_append Un_iff)
  then have "''watch?v='' @ r' \<in> set (url_head u) \<or> ''shorts/'' @ r' \<in> set (url_head u)"
    by (simp only: lit_iff)
  then obtain h' where h': "h' \<in> set [''http://www.youtube.com/'', ''https://www.youtube.com/'', ''www.youtube.com/'',
              ''http://youtube.com/'', ''https://youtube.com/'', ''youtube.com/'',
              ''http://www.music.youtube.com/'', ''https://www.music.youtube.com/'',
              ''www.music.youtube.com/'', ''http://music.youtube.com/'',
              ''https://music.youtube.com/'', ''music.youtube.com/'']"
    "h' @ ''watch?v='' @ r' = map lower_char u \<or> h' @ ''shorts/'' @ r' = map lower_char u"
    unfolding url_head_iff by blast
  from heads_apart [OF h(1) h'(1), of r r'] h(2) h'(2) show False
    by metis
qed

lemma playlist_pattern_nonempty: "YOUTUBE_PLAYLIST_PATTERN u \<Longrightarrow> u \<noteq> []"
proof
  assume "YOUTUBE_PLAYLIST_PATTERN u" and "u = []"
  then have "YOUTUBE_PLAYLIST_PATTERN []" by simp
  then show False by code_simp
qed

subsection \<open>Playlists\<close>

lemma get_info_of_playlist:
  assumes q: "query self = Some q" and P: "YOUTUBE_PLAYLIST_PATTERN q"
  shows "get_info env self =
           and_then (get_playlist env q) (\<lambda>d. Inr (map_option PlatformTracks d))"
proof -
  have V: "\<not> YOUTUBE_VIDEO_PATTERN q" using P by (rule patterns_disjoint)
  have ne: "q \<noteq> []" using P by (rule playlist_pattern_nonempty)
  have "fetch_data env self q = and_then (get_playlist env q) (\<lambda>d. Inr (map_option Results d))"
    using V P by (subst fetch_data.simps) simp
  then show ?thesis
    using q P ne
    by (cases "get_playlist env q")
       (auto simp: get_info_def is_valid_def create_platform_tracks_def split: option.splits)
qed

text \<open>
  Where every video is formatted without an exception the playlist keeps its order.
  For a query that is a playlist URL, when the library returns a playlist whose
  \<^verbatim>\<open>videos\<close> are \<open>vs\<close> and \<^verbatim>\<open>_format_track\<close> returns for each of them, \<^verbatim>\<open>get_info\<close> returns
  a \<^verbatim>\<open>PlatformTracks\<close> with one track for each video, in the order of \<open>vs\<close>: the track
  at each position is the format of the video at that position. Every track has the
  year 0 and the platform \<^verbatim>\<open>youtube\<close>.
\<close>

lemma playlist_tracks_keep_source_order:
  assumes "query self = Some q" and "YOUTUBE_PLAYLIST_PATTERN q"
    and "playlist_videos env q = Inr playlist" and "truthy playlist"
    and "py_get playlist ''videos'' (PList []) = Inr (PList vs)"
    and "map_m format_track vs = Inr ts"
  shows "get_info env self = Inr (Some (PlatformTracks ts))
         \<and> length ts = length vs
         \<and> (\<forall>i<length vs. format_track (vs ! i) = Inr (ts ! i))
         \<and> (\<forall>t\<in>set ts. year t = 0 \<and> platform t = ''youtube'')"
proof -
  have g: "get_playlist env q = Inr (Some ts)"
    using assms(3-6) by (simp add: get_playlist_def)
  have i: "get_info env self = Inr (Some (PlatformTracks ts))"
    using get_info_of_playlist [OF assms(1,2), of env] g by simp
  have m: "length ts = length vs" "\<forall>i<length vs. format_track (vs ! i) = Inr (ts ! i)"
    using map_m_Inr [OF assms(6)] by simp_all
  have "year t = 0 \<and> platform t = ''youtube''" if "t \<in> set ts" for t
  proof -
    from that obtain i where "i < length ts" "ts ! i = t" by (auto simp: in_set_conv_nth)
    with m have "format_track (vs ! i) = Inr t" by auto
    then show ?thesis by (rule format_track_fields)
  qed
  with i m show ?thesis by blast
qed

lemma playlist_tracks_keep_source_order_example:
  "get_info
     \<lparr>make_request = (\<lambda>u. Inr PNone), videos_search = (\<lambda>u. Inr PNone),
      playlist_videos = (\<lambda>u. Inr (PDict [(''videos'', PList
         [PDict [(''id'', PStr ''v1''), (''title'', PStr ''One''), (''duration'', PStr ''3:05''),
                 (''channel'', PDict [(''name'', PStr ''Ch'')]),
                 (''thumbnails'', PList [PDict [(''url'', PStr ''u1'')]])],
          PDict [(''id'', PStr ''v2''), (''title'', PStr ''Two''), (''duration'', PNone)]])])),
      download = (\<lambda>t. Inr None), tracks_has_results = (\<lambda>t. Inr False)\<rparr>
     (init (Some ''https://www.youtube.com/playlist?list=PL1&si=x''))
   = Inr (Some (PlatformTracks
       [\<lparr>track_id = PStr ''v1'', name = PStr ''One'', duration = 185, artist = PStr ''Ch'',
         cover = PStr ''u1'', year = 0, platform = ''youtube''\<rparr>,
        \<lparr>track_id = PStr ''v2'', name = PStr ''Two'', duration = 0, artist = PStr ''Unknown'',
         cover = PStr [], year = 0, platform = ''youtube''\<rparr>]))"
proof -
  let ?vs = "[PDict [(''id'', PStr ''v1''), (''title'', PStr ''One''), (''duration'', PStr ''3:05''),
                 (''channel'', PDict [(''name'', PStr ''Ch'')]),
                 (''thumbnails'', PList [PDict [(''url'', PStr ''u1'')]])],
          PDict [(''id'', PStr ''v2''), (''title'', PStr ''Two''), (''duration'', PNone)]]"
  let ?pl = "PDict [(''videos'', PList ?vs)]"
  let ?env = "\<lparr>make_request = (\<lambda>u. Inr PNone), videos_search = (\<lambda>u. Inr PNone),
      playlist_videos = (\<lambda>u. Inr ?pl),
      download = (\<lambda>t. Inr None), tracks_has_results = (\<lambda>t. Inr False)\<rparr>"
  let ?q = "''https://www.youtube.com/playlist?list=PL1''"
  have q: "query (init (Some ''https://www.youtube.com/playlist?list=PL1&si=x'')) = Some ?q"
    by code_simp
  have p: "YOUTUBE_PLAYLIST_PATTERN ?q" by code_simp
  have s: "playlist_videos ?env ?q = Inr ?pl" by simp
  have t: "truthy ?pl" by simp
  have v: "py_get ?pl ''videos'' (PList []) = Inr (PList ?vs)" by simp
  have m: "map_m format_track ?vs =
     Inr [\<lparr>track_id = PStr ''v1'', name = PStr ''One'', duration = 185, artist = PStr ''Ch'',
         cover = PStr ''u1'', year = 0, platform = ''youtube''\<rparr>,
        \<lparr>track_id = PStr ''v2'', name = PStr ''Two'', duration = 0, artist = PStr ''Unknown'',
         cover = PStr [], year = 0, platform = ''youtube''\<rparr>]"
    by code_simp
  show ?thesis
    using playlist_tracks_keep_source_order [OF q p s t v m] by simp
qed

text \<open>
  C7 at a playlist with one video whose duration is \<^verbatim>\<open>"1:xx"\<close>. The query is a playlist
  URL and the library lists the video, but \<^verbatim>\<open>get_info\<close> returns no \<^verbatim>\<open>PlatformTracks\<close>:
  \<^verbatim>\<open>_get_playlist\<close> formats the videos after its \<^verbatim>\<open>try\<close>, \<^verbatim>\<open>int("xx")\<close> raises
  \<^verbatim>\<open>ValueError\<close> in \<^verbatim>\<open>_duration_to_seconds\<close>, and the exception leaves \<^verbatim>\<open>get_info\<close>.
\<close>

theorem get_info_raises_on_malformed_playlist_entry:
  "get_info
     \<lparr>make_request = (\<lambda>u. Inr PNone), videos_search = (\<lambda>u. Inr PNone),
      playlist_videos = (\<lambda>u. Inr (PDict [(''videos'', PList
         [PDict [(''id'', PStr ''v1''), (''title'', PStr ''One''), (''duration'', PStr ''1:xx'')]])])),
      download = (\<lambda>t. Inr None), tracks_has_results = (\<lambda>t. Inr False)\<rparr>
     (init (Some ''https://www.youtube.com/playlist?list=PL1'')) = Inl ValueError"
  by code_simp

subsection \<open>Exceptions that leave the backend\<close>

text \<open>
  C1 at a Shorts URL. The video pattern accepts \<^verbatim>\<open>https://youtube.com/shorts/abc\<close>, so
  \<^verbatim>\<open>get_info\<close> fetches it; when the oEmbed request answers, \<^verbatim>\<open>_get_youtube_url\<close> takes
  \<^verbatim>\<open>url.split("v=")[1]\<close>, the URL has no \<^verbatim>\<open>v=\<close>, and the \<^verbatim>\<open>IndexError\<close> leaves \<^verbatim>\<open>get_info\<close>,
  which has no \<^verbatim>\<open>try\<close>.
\<close>

theorem get_info_raises_on_shorts_url:
  "get_info
     \<lparr>make_request = (\<lambda>u. Inr (PDict [(''title'', PStr ''A short''),
                                        (''author_name'', PStr ''Someone'')])),
      videos_search = (\<lambda>u. Inr PNone), playlist_videos = (\<lambda>u. Inr PNone),
      download = (\<lambda>t. Inr None), tracks_has_results = (\<lambda>t. Inr False)\<rparr>
     (init (Some ''https://youtube.com/shorts/abc'')) = Inl IndexError"
  by code_simp

text \<open>
  The text branch of \<^verbatim>\<open>search\<close>, by contrast, is inside a \<^verbatim>\<open>try\<close>: for a query that is
  not a URL of the backend, \<^verbatim>\<open>search\<close> returns.
\<close>

lemma search_catches_text_search_failures:
  assumes "query self = Some q" and "\<not> is_valid (Some q)"
  shows "\<exists>r. search env self = Inr r"
  using assms
  by (subst search.simps) (auto simp: create_platform_tracks_def split: option.splits)


subsection \<open>Duration normalisation\<close>

text \<open>
  On clock strings the normalisation computes the seconds: for parts that are
  non-empty runs of decimal digits, \<^verbatim>\<open>H:MM:SS\<close> gives \<open>H * 3600 + MM * 60 + SS\<close> and
  \<^verbatim>\<open>MM:SS\<close> gives \<open>MM * 60 + SS\<close>. The empty string, \<^verbatim>\<open>None\<close> and a string that does not
  split into two or three parts give 0.
\<close>

lemma py_split_at_sep:
  "c \<notin> set a \<Longrightarrow> py_split [c] (a @ c # rest) = a # py_split [c] rest"
  by (induction a) (auto split: list.splits)

lemma py_split_no_sep: "c \<notin> set a \<Longrightarrow> py_split [c] a = [a]"
  by (induction a) (auto split: list.splits)

lemma digit_not_special:
  "is_digit c \<Longrightarrow> \<not> is_space c \<and> c \<noteq> CHR ''-'' \<and> c \<noteq> CHR ''+'' \<and> c \<noteq> CHR ''_'' \<and> c \<noteq> CHR '':''"
  by (auto simp: is_digit_def is_space_def Let_def)

lemma digit_groups_of_digits: "s \<noteq> [] \<Longrightarrow> list_all is_digit s \<Longrightarrow> digit_groups s"
  by (induction s rule: digit_groups.induct) (auto dest: digit_not_special)

lemma py_strip_of_digits:
  assumes "s \<noteq> []" and "list_all is_digit s"
  shows "py_strip s = s"
proof -
  from assms obtain c cs where s: "s = c # cs" by (cases s) auto
  with assms have "\<not> is_space c" by (auto dest: digit_not_special)
  with s have 1: "dropWhile is_space s = s" by simp
  from assms have "rev s \<noteq> []" by simp
  then obtain d ds where r: "rev s = d # ds" by (cases "rev s") auto
  then have "d \<in> set s" by (metis list.set_intros(1) set_rev)
  with assms have "\<not> is_space d" by (auto simp: list_all_iff dest: digit_not_special)
  with r have "dropWhile is_space (rev s) = rev s" by simp
  with 1 show ?thesis by (simp add: py_strip_def)
qed

lemma py_int_of_digits:
  assumes "s \<noteq> []" and "list_all is_digit s"
  shows "py_int s = Inr (digits_value s)"
proof -
  from assms obtain c cs where s: "s = c # cs" by (cases s) auto
  with assms have c: "c \<noteq> CHR ''-''" "c \<noteq> CHR ''+''" by (auto dest: digit_not_special)
  have f: "filter (\<lambda>c. c \<noteq> CHR ''_'') s = s"
    using assms(2) by (auto simp: list_all_iff filter_id_conv dest: digit_not_special)
  have "parse_digits s = Inr (digits_value s)"
    using digit_groups_of_digits [OF assms] f by (simp add: parse_digits_def)
  with s c show ?thesis
    using py_strip_of_digits [OF assms] by (simp add: py_int_def)
qed

lemma no_colon_in_digits: "list_all is_digit s \<Longrightarrow> CHR '':'' \<notin> set s"
  by (auto simp: list_all_iff dest: digit_not_special)

lemma duration_to_seconds_of_clock:
  assumes "h \<noteq> []" "list_all is_digit h" "m \<noteq> []" "list_all is_digit m"
    "s \<noteq> []" "list_all is_digit s"
  shows "duration_to_seconds (PStr (h @ '':'' @ m @ '':'' @ s))
           = Inr (digits_value h * 3600 + digits_value m * 60 + digits_value s)"
    and "duration_to_seconds (PStr (m @ '':'' @ s))
           = Inr (digits_value m * 60 + digits_value s)"
proof -
  have 3: "py_split '':'' (h @ '':'' @ m @ '':'' @ s) = [h, m, s]"
    using assms by (simp add: py_split_at_sep py_split_no_sep no_colon_in_digits)
  have 2: "py_split '':'' (m @ '':'' @ s) = [m, s]"
    using assms by (simp add: py_split_at_sep py_split_no_sep no_colon_in_digits)
  show "duration_to_seconds (PStr (h @ '':'' @ m @ '':'' @ s))
           = Inr (digits_value h * 3600 + digits_value m * 60 + digits_value s)"
    using assms 3 by (simp add: clock_to_seconds_def py_int_of_digits)
  show "duration_to_seconds (PStr (m @ '':'' @ s))
           = Inr (digits_value m * 60 + digits_value s)"
    using assms 2 by (simp add: clock_to_seconds_def py_int_of_digits)
qed

lemma duration_to_seconds_of_other_shapes:
  "duration_to_seconds (PStr []) = Inr 0"
  "duration_to_seconds PNone = Inr 0"
  "length (py_split '':'' s) \<noteq> 2 \<Longrightarrow> length (py_split '':'' s) \<noteq> 3
     \<Longrightarrow> duration_to_seconds (PStr s) = Inr 0"
  by (auto simp: clock_to_seconds_def split: list.splits)

text \<open>
  C3 at \<^verbatim>\<open>"1:xx"\<close>: the string has two parts, the second is not a number, and
  \<^verbatim>\<open>int("xx")\<close> raises \<^verbatim>\<open>ValueError\<close> where the claim has the result 0.
\<close>

theorem duration_to_seconds_raises_on_letters:
  "duration_to_seconds (PStr ''1:xx'') = Inl ValueError"
  by code_simp


end
